theory Spec2Isabelle
  imports Main "HOL-Library.Sublist"
begin

section \<open>Budget Buddy: the HTTP handlers of app.py\<close>

text \<open>
  The program is a Flask application with a process-wide AI client handle \<open>model\<close>
  (either a usable handle or \<open>None\<close>), a forwarding function \<open>execute_budget_buddy\<close>
  and two routes, \<open>check\<close> and \<open>execute\<close>. Exceptions are values of a sum type, the
  calls a handler makes and the lines it prints are collected in an event list, and the
  third-party library (the constructor of the handle and its \<open>generate_content\<close>) is a
  parameter of the model.
\<close>

subsection \<open>Python values\<close>

text \<open>
  A Python \<open>str\<close> is a sequence of Unicode code points. \<open>py\<close> turns an ASCII literal
  into one; other code points are written as numbers.
\<close>

type_synonym pystr = "nat list"

definition py :: "string \<Rightarrow> pystr" where
  "py s = map of_char s"

text \<open>A float is finite (mantissa and binary exponent) or one of the three special values.\<close>

datatype pyfloat = Finite int int | Infinity | NegInfinity | NaN

text \<open>
  The values a parsed JSON document consists of. A dict is kept as its list of items;
  a lookup takes the first item with the key.
\<close>

datatype pyval =
    PNone
  | PBool bool
  | PInt int
  | PFloat pyfloat
  | PStr pystr
  | PList "pyval list"
  | PDict "(pystr \<times> pyval) list"

text \<open>Truth value testing, as \<open>not x\<close> and \<open>if x\<close> apply it.\<close>

fun float_nonzero :: "pyfloat \<Rightarrow> bool" where
  "float_nonzero (Finite m e) = (m \<noteq> 0)"
| "float_nonzero Infinity = True"
| "float_nonzero NegInfinity = True"
| "float_nonzero NaN = True"

fun truthy :: "pyval \<Rightarrow> bool" where
  "truthy PNone = False"
| "truthy (PBool b) = b"
| "truthy (PInt i) = (i \<noteq> 0)"
| "truthy (PFloat f) = float_nonzero f"
| "truthy (PStr s) = (s \<noteq> [])"
| "truthy (PList xs) = (xs \<noteq> [])"
| "truthy (PDict kvs) = (kvs \<noteq> [])"

fun isinstance_str :: "pyval \<Rightarrow> bool" where
  "isinstance_str (PStr s) = True"
| "isinstance_str v = False"

text \<open>
  The code points of a string value. The handler reads it only after
  \<open>isinstance(query, str)\<close> has succeeded.
\<close>

fun str_value :: "pyval \<Rightarrow> pystr" where
  "str_value (PStr s) = s"
| "str_value v = []"

fun type_name :: "pyval \<Rightarrow> pystr" where
  "type_name PNone = py ''NoneType''"
| "type_name (PBool b) = py ''bool''"
| "type_name (PInt i) = py ''int''"
| "type_name (PFloat f) = py ''float''"
| "type_name (PStr s) = py ''str''"
| "type_name (PList xs) = py ''list''"
| "type_name (PDict kvs) = py ''dict''"

text \<open>
  The code points \<open>str.strip()\<close> removes when called without an argument: the
  characters for which \<open>str.isspace\<close> holds.
\<close>

definition isspace :: "nat \<Rightarrow> bool" where
  "isspace c \<longleftrightarrow>
     (9 \<le> c \<and> c \<le> 13) \<or> (28 \<le> c \<and> c \<le> 32) \<or> c = 133 \<or> c = 160 \<or> c = 5760 \<or>
     (8192 \<le> c \<and> c \<le> 8202) \<or> c = 8232 \<or> c = 8233 \<or> c = 8239 \<or> c = 8287 \<or> c = 12288"

definition strip :: "pystr \<Rightarrow> pystr" where
  "strip s = rev (dropWhile isspace (rev (dropWhile isspace s)))"

subsection \<open>Exceptions, events, responses\<close>

text \<open>
  Exceptions are subclasses of \<open>Exception\<close>: the library's \<open>APIError\<close>, a class
  derived from \<open>APIError\<close> (given by its name), the \<open>AttributeError\<close> of a failed
  attribute access, a plain \<open>Exception\<close>, and any other class that is not derived from
  \<open>APIError\<close> (given by its name). \<open>exn_str\<close> is what \<open>str(e)\<close> and \<open>{e}\<close> in an
  f-string give.
\<close>

datatype exn_class =
    APIError
  | APIErrorSubclass pystr
  | AttributeError
  | Exception
  | OtherError pystr

datatype exn = Exn exn_class pystr

fun exn_str :: "exn \<Rightarrow> pystr" where
  "exn_str (Exn c m) = m"

text \<open>
  \<open>isinstance(e, APIError)\<close>, the test of \<open>except APIError\<close>: it holds of the class
  and of every class derived from it.
\<close>

fun isinstance_APIError :: "exn \<Rightarrow> bool" where
  "isinstance_APIError (Exn APIError m) = True"
| "isinstance_APIError (Exn (APIErrorSubclass n) m) = True"
| "isinstance_APIError (Exn AttributeError m) = False"
| "isinstance_APIError (Exn Exception m) = False"
| "isinstance_APIError (Exn (OtherError n) m) = False"

text \<open>
  What a run does besides returning: a line printed to the log, an entry into
  \<open>execute_budget_buddy\<close> with its argument, and a call of the client's
  \<open>generate_content\<close> with the content, the system instruction and the tools.
\<close>

datatype event =
    Print pystr
  | Call_execute_budget_buddy pystr
  | Call_generate_content pystr pystr pyval

record http_response =
  body :: pyval
  status :: nat

text \<open>\<open>jsonify(d), code\<close>: the JSON document of the dict with the status code.\<close>

definition jsonify :: "(pystr \<times> pyval) list \<Rightarrow> nat \<Rightarrow> http_response" where
  "jsonify d code = \<lparr>body = PDict d, status = code\<rparr>"

subsection \<open>The library: request parsing and the AI client\<close>

text \<open>
  The body of a request as \<open>request.get_json(silent=True)\<close> sees it: absent, of
  another content type or not parseable (the call returns \<open>None\<close>), or a JSON
  document (the call returns its value).
\<close>

datatype request_body = No_json | Json pyval

fun get_json :: "request_body \<Rightarrow> pyval" where
  "get_json No_json = PNone"
| "get_json (Json v) = v"

text \<open>\<open>data.get(key)\<close>: the value or \<open>None\<close> on a dict, an AttributeError elsewhere.\<close>

fun dict_get :: "pyval \<Rightarrow> pystr \<Rightarrow> exn + pyval" where
  "dict_get (PDict kvs) k = Inr (case map_of kvs k of None \<Rightarrow> PNone | Some v \<Rightarrow> v)"
| "dict_get v k =
     Inl (Exn AttributeError
       ([39] @ type_name v @ [39] @ py '' object has no attribute '' @ [39] @ py ''get'' @ [39]))"

text \<open>
  The response object of the client; reading its \<open>text\<close> property gives the text or
  raises.
\<close>

datatype response = Response "exn + pystr"

fun response_text :: "response \<Rightarrow> exn + pystr" where
  "response_text (Response t) = t"

text \<open>
  \<open>generate_content\<close> of a handle of type \<open>'h\<close>, applied to the content, the system
  instruction and the tools: it returns a response or raises.
\<close>

type_synonym 'h client = "'h \<Rightarrow> pystr \<Rightarrow> pystr \<Rightarrow> pyval \<Rightarrow> exn + response"

subsection \<open>Configuration and initialization\<close>

definition MODEL_TO_USE :: pystr where
  "MODEL_TO_USE = py ''gemini-2.5-flash''"


subsection \<open>Core LLM logic\<close>

definition system_prompt :: pystr where
  "system_prompt =
     py ''You are Budget Buddy '' @ [8212] @ py '' the voice of financial reason. '' @
     py ''Your job is to help the user make smarter spending decisions. '' @
     py ''Suggest at least one cheaper or free alternative found via Google Search. '' @
     py ''Briefly explain why your choice is smarter. '' @
     py ''Keep it clever, casual, and concise '' @ [8212] @ py '' no lectures. '' @
     py ''If it'' @ [8217] @ py ''s already a good deal, say so with a friendly remark.''"

definition tools :: pyval where
  "tools = PList [PDict [(py ''google_search'', PDict [])]]"

definition execute_budget_buddy ::
  "'h client \<Rightarrow> 'h option \<Rightarrow> pystr \<Rightarrow> (exn + pystr) \<times> event list" where
  "execute_budget_buddy generate_content model query =
     (case model of
        None \<Rightarrow>
          (Inl (Exn Exception
             (py ''AI model failed to initialize due to missing or invalid API key.'')),
           [Call_execute_budget_buddy query])
      | Some m \<Rightarrow>
          (case generate_content m query system_prompt tools of
             Inl e \<Rightarrow>
               (Inl e,
                [Call_execute_budget_buddy query, Call_generate_content query system_prompt tools])
           | Inr response \<Rightarrow>
               (response_text response,
                [Call_execute_budget_buddy query, Call_generate_content query system_prompt tools])))"

subsection \<open>Health check route\<close>

definition check :: "'h option \<Rightarrow> http_response \<times> event list" where
  "check model =
     (let status_code = (if model = None then 503 else 200);
          message =
            (if model = None then py ''backend is running, but AI model failed to initialize.''
             else py ''backend is running'')
      in (jsonify
            [(py ''status'', PStr (if status_code = 200 then py ''ok'' else py ''error'')),
             (py ''message'', PStr message),
             (py ''model'', PStr MODEL_TO_USE)]
            status_code,
          []))"

subsection \<open>Main API route\<close>

definition missing_query_response :: http_response where
  "missing_query_response =
     jsonify
       [(py ''error'',
         PStr (py ''Missing or empty '' @ [34] @ py ''query'' @ [34] @ py '' field in the request.''))]
       400"

text \<open>
  The handler. The first three tests return before the \<open>try\<close> block; \<open>data.get\<close> is
  outside it as well, so an exception it raises is the handler's result. In the
  \<open>try\<close> block, \<open>except APIError\<close> comes before \<open>except Exception\<close> and takes every
  instance of \<open>APIError\<close>, those of its subclasses included.
\<close>

definition execute ::
  "'h client \<Rightarrow> 'h option \<Rightarrow> request_body \<Rightarrow> (exn + http_response) \<times> event list" where
  "execute generate_content model request =
     (if model = None then
        (Inr (jsonify
           [(py ''error'', PStr (py ''AI service not initialized. Check API key configuration.''))]
           503), [])
      else
        let data = get_json request in
        if \<not> truthy data then
          (Inr (jsonify [(py ''error'', PStr (py ''Invalid or missing JSON payload.''))] 400), [])
        else
          case dict_get data (py ''query'') of
            Inl e \<Rightarrow> (Inl e, [])
          | Inr query \<Rightarrow>
              if \<not> truthy query \<or> \<not> isinstance_str query
                 \<or> \<not> truthy (PStr (strip (str_value query)))
              then (Inr missing_query_response, [])
              else
                (case execute_budget_buddy generate_content model (str_value query) of
                   (Inr result, evs) \<Rightarrow>
                     (Inr (jsonify
                        [(py ''success'', PBool True), (py ''result'', PStr result)] 200), evs)
                 | (Inl e, evs) \<Rightarrow>
                     if isinstance_APIError e then
                       (Inr (jsonify
                          [(py ''error'',
                            PStr (py ''AI Service Unavailable or request error: '' @ exn_str e))]
                          503),
                        evs @ [Print (py ''Gemini API Error: '' @ exn_str e)])
                     else
                       (Inr (jsonify
                          [(py ''error'', PStr (py ''An unexpected internal server error occurred.''))]
                          500),
                        evs @ [Print (py ''Internal Server Error: '' @ exn_str e)])))"


subsection \<open>Test doubles for the library\<close>

text \<open>A client that answers every call with the same text, and one that always raises.\<close>

definition canned_client :: "pystr \<Rightarrow> unit client" where
  "canned_client reply m content instruction tls = Inr (Response (Inr reply))"

definition failing_client :: "exn \<Rightarrow> unit client" where
  "failing_client e m content instruction tls = Inl e"

text \<open>A client whose answer is the content it was called with.\<close>

definition echo_client :: "unit client" where
  "echo_client m content instruction tls = Inr (Response (Inr content))"



subsection \<open>Strings occurring in a JSON document\<close>




section \<open>Properties\<close>

subsection \<open>Validation of the query\<close>

lemma strip_eq_Nil: "strip s = [] \<longleftrightarrow> (\<forall>c\<in>set s. isspace c)"
proof
  assume "strip s = []"
  then have a: "dropWhile isspace (rev (dropWhile isspace s)) = []"
    by (simp add: strip_def)
  show "\<forall>c\<in>set s. isspace c"
  proof (cases "dropWhile isspace s = []")
    case True
    then show ?thesis by simp
  next
    case False
    then have "\<not> isspace (hd (dropWhile isspace s))"
      by (rule hd_dropWhile)
    moreover have "hd (dropWhile isspace s) \<in> set (rev (dropWhile isspace s))"
      using False by simp
    ultimately show ?thesis
      using a by auto
  qed
next
  assume "\<forall>c\<in>set s. isspace c"
  then have "dropWhile isspace s = []"
    by simp
  then show "strip s = []"
    by (simp add: strip_def del: dropWhile_eq_Nil_conv)
qed

text \<open>A string with a non-whitespace character passes the three tests on \<open>query\<close>.\<close>

lemma query_accepted:
  assumes "\<exists>c\<in>set q. \<not> isspace c"
  shows "\<not> (\<not> truthy (PStr q) \<or> \<not> isinstance_str (PStr q)
            \<or> \<not> truthy (PStr (strip (str_value (PStr q)))))"
proof -
  from assms have "strip q \<noteq> []"
    by (simp add: strip_eq_Nil)
  moreover from assms have "q \<noteq> []"
    by auto
  ultimately show ?thesis
    by simp
qed

text \<open>The handler on a request that passes validation, in terms of the executor.\<close>

lemma execute_valid:
  assumes "map_of d (py ''query'') = Some (PStr q)" and "\<exists>c\<in>set q. \<not> isspace c"
  shows "execute generate_content (Some m) (Json (PDict d)) =
     (case execute_budget_buddy generate_content (Some m) q of
        (Inr result, evs) \<Rightarrow>
          (Inr (jsonify [(py ''success'', PBool True), (py ''result'', PStr result)] 200), evs)
      | (Inl e, evs) \<Rightarrow>
          if isinstance_APIError e then
            (Inr (jsonify
               [(py ''error'', PStr (py ''AI Service Unavailable or request error: '' @ exn_str e))]
               503),
             evs @ [Print (py ''Gemini API Error: '' @ exn_str e)])
          else
            (Inr (jsonify
               [(py ''error'', PStr (py ''An unexpected internal server error occurred.''))] 500),
             evs @ [Print (py ''Internal Server Error: '' @ exn_str e)]))"
proof -
  from assms(1) have "d \<noteq> []"
    by auto
  with assms(1) query_accepted [OF assms(2)] show ?thesis
    by (simp add: execute_def)
qed


subsection \<open>The execute route\<close>

text \<open>
  C1: a POST to /api/execute whose body is a JSON object with a string \<open>query\<close> that has
  a non-whitespace character, with a usable handle and an upstream call that returns a
  response with a text, is answered with status 200 and the body
  \<open>{success: true, result: text}\<close>, the text being the upstream one, unchanged.
\<close>

theorem execute_success:
  assumes "map_of d (py ''query'') = Some (PStr q)"
    and "\<exists>c\<in>set q. \<not> isspace c"
    and "generate_content m q system_prompt tools = Inr r"
    and "response_text r = Inr t"
  shows "fst (execute generate_content (Some m) (Json (PDict d))) =
     Inr \<lparr>body = PDict [(py ''success'', PBool True), (py ''result'', PStr t)], status = 200\<rparr>"
  using execute_valid [OF assms(1,2), of generate_content m] assms(3,4)
  by (simp add: execute_budget_buddy_def jsonify_def)

theorem execute_success_witness:
  "map_of [(py ''query'', PStr (py ''Should I buy a $150 yoga mat?''))] (py ''query'') =
     Some (PStr (py ''Should I buy a $150 yoga mat?''))
   \<and> (\<exists>c\<in>set (py ''Should I buy a $150 yoga mat?''). \<not> isspace c)
   \<and> canned_client (py ''Borrow one first.'') () (py ''Should I buy a $150 yoga mat?'')
         system_prompt tools = Inr (Response (Inr (py ''Borrow one first.'')))
   \<and> response_text (Response (Inr (py ''Borrow one first.''))) = Inr (py ''Borrow one first.'')
   \<and> fst (execute (canned_client (py ''Borrow one first.'')) (Some ())
         (Json (PDict [(py ''query'', PStr (py ''Should I buy a $150 yoga mat?''))]))) =
       Inr \<lparr>body = PDict [(py ''success'', PBool True),
                           (py ''result'', PStr (py ''Borrow one first.''))],
            status = 200\<rparr>"
proof -
  let ?q = "py ''Should I buy a $150 yoga mat?''"
  have h1: "map_of [(py ''query'', PStr ?q)] (py ''query'') = Some (PStr ?q)"
    by simp
  have h2: "\<exists>c\<in>set ?q. \<not> isspace c"
    by (simp add: py_def isspace_def)
  have h3: "canned_client (py ''Borrow one first.'') () ?q system_prompt tools =
      Inr (Response (Inr (py ''Borrow one first.'')))"
    by (simp add: canned_client_def)
  have h4: "response_text (Response (Inr (py ''Borrow one first.''))) = Inr (py ''Borrow one first.'')"
    by simp
  from h1 h2 h3 h4
    execute_success [where generate_content = "canned_client (py ''Borrow one first.'')"
      and m = "()", OF h1 h2 h3 h4]
  show ?thesis
    by blast
qed

text \<open>
  C2: on a request that reaches the call of the executor, an upstream call that raises
  an instance of \<open>APIError\<close> (the class or one derived from it) is answered with status
  503 and an error message that ends with the text of the exception; an upstream call
  that raises any other exception is answered with status 500 and a fixed message, the
  same for every such exception.
\<close>

theorem execute_upstream_failure:
  assumes "map_of d (py ''query'') = Some (PStr q)"
    and "\<exists>c\<in>set q. \<not> isspace c"
    and "generate_content m q system_prompt tools = Inl e"
  shows "fst (execute generate_content (Some m) (Json (PDict d))) =
     (if isinstance_APIError e then
        Inr \<lparr>body = PDict [(py ''error'',
                 PStr (py ''AI Service Unavailable or request error: '' @ exn_str e))],
             status = 503\<rparr>
      else
        Inr \<lparr>body = PDict [(py ''error'',
                 PStr (py ''An unexpected internal server error occurred.''))],
             status = 500\<rparr>)"
  using execute_valid [OF assms(1,2), of generate_content m] assms(3)
  by (simp add: execute_budget_buddy_def jsonify_def)

theorem execute_upstream_failure_witness:
  "fst (execute (failing_client (Exn APIError (py ''429 quota exceeded''))) (Some ())
         (Json (PDict [(py ''query'', PStr (py ''Is a $9 latte worth it?''))]))) =
     Inr \<lparr>body = PDict [(py ''error'',
              PStr (py ''AI Service Unavailable or request error: '' @ py ''429 quota exceeded''))],
          status = 503\<rparr>
   \<and> fst (execute (failing_client (Exn (APIErrorSubclass (py ''ClientError''))
           (py ''400 API key not valid''))) (Some ())
         (Json (PDict [(py ''query'', PStr (py ''Is a $9 latte worth it?''))]))) =
     Inr \<lparr>body = PDict [(py ''error'',
              PStr (py ''AI Service Unavailable or request error: '' @ py ''400 API key not valid''))],
          status = 503\<rparr>
   \<and> fst (execute (failing_client (Exn (OtherError (py ''TypeError'')) (py ''unexpected keyword argument'')))
         (Some ()) (Json (PDict [(py ''query'', PStr (py ''Is a $9 latte worth it?''))]))) =
     Inr \<lparr>body = PDict [(py ''error'',
              PStr (py ''An unexpected internal server error occurred.''))],
          status = 500\<rparr>"
proof -
  let ?q = "py ''Is a $9 latte worth it?''"
  have h1: "map_of [(py ''query'', PStr ?q)] (py ''query'') = Some (PStr ?q)"
    by simp
  have h2: "\<exists>c\<in>set ?q. \<not> isspace c"
    by (simp add: py_def isspace_def)
  have h3: "failing_client e () ?q system_prompt tools = Inl e" for e
    by (simp add: failing_client_def)
  from execute_upstream_failure [where generate_content = "failing_client
        (Exn APIError (py ''429 quota exceeded''))" and m = "()", OF h1 h2 h3]
    execute_upstream_failure [where generate_content = "failing_client
        (Exn (APIErrorSubclass (py ''ClientError'')) (py ''400 API key not valid''))" and m = "()",
      OF h1 h2 h3]
    execute_upstream_failure [where generate_content = "failing_client
        (Exn (OtherError (py ''TypeError'')) (py ''unexpected keyword argument''))" and m = "()",
      OF h1 h2 h3]
  show ?thesis
    by simp
qed

text \<open>
  C3: with an unusable handle (\<open>model\<close> is \<open>None\<close>) every POST to /api/execute, whatever
  its body, is answered with status 503 and the body
  \<open>{error: 'AI service not initialized. Check API key configuration.'}\<close>, and the run
  has no event: the executor is not entered and the client is not called.
\<close>

theorem execute_model_unusable:
  "execute generate_content None request =
     (Inr \<lparr>body = PDict [(py ''error'',
               PStr (py ''AI service not initialized. Check API key configuration.''))],
           status = 503\<rparr>,
      [])"
  by (simp add: execute_def jsonify_def)

theorem execute_model_unusable_witness:
  "execute (canned_client (py ''unused'')) None (Json (PList [PInt 1])) =
     (Inr \<lparr>body = PDict [(py ''error'',
               PStr (py ''AI service not initialized. Check API key configuration.''))],
           status = 503\<rparr>,
      [])
   \<and> execute (canned_client (py ''unused'')) None No_json =
     (Inr \<lparr>body = PDict [(py ''error'',
               PStr (py ''AI service not initialized. Check API key configuration.''))],
           status = 503\<rparr>,
      [])"
  using execute_model_unusable [of "canned_client (py ''unused'')" "Json (PList [PInt 1])"]
    execute_model_unusable [of "canned_client (py ''unused'')" No_json]
  by simp

subsection \<open>The check route\<close>

text \<open>
  C4: GET /check is answered with status 200 and
  \<open>{status: 'ok', message: 'backend is running', model: 'gemini-2.5-flash'}\<close> when the
  handle is usable, and with status 503 and \<open>{status: 'error', message: 'backend is
  running, but AI model failed to initialize.', model: 'gemini-2.5-flash'}\<close> when it is
  not; the run has no event in either case.
\<close>

theorem check_response:
  "check (Some m) =
     (\<lparr>body = PDict [(py ''status'', PStr (py ''ok'')),
                      (py ''message'', PStr (py ''backend is running'')),
                      (py ''model'', PStr (py ''gemini-2.5-flash''))],
       status = 200\<rparr>, [])
   \<and> check None =
     (\<lparr>body = PDict [(py ''status'', PStr (py ''error'')),
                      (py ''message'',
                       PStr (py ''backend is running, but AI model failed to initialize.'')),
                      (py ''model'', PStr (py ''gemini-2.5-flash''))],
       status = 503\<rparr>, [])"
  by (simp add: check_def jsonify_def MODEL_TO_USE_def)


subsection \<open>Rejected requests\<close>

text \<open>
  C5, as the claim states it, fails on the empty JSON object: its \<open>query\<close> is
  missing, and the answer is the 400 of the payload test, not the 400 of the query
  test.
\<close>

theorem execute_missing_query_counterexample:
  "map_of ([] :: (pystr \<times> pyval) list) (py ''query'') = None
   \<and> fst (execute (canned_client (py ''unused'')) (Some ()) (Json (PDict []))) \<noteq>
       Inr \<lparr>body = PDict [(py ''error'',
                PStr (py ''Missing or empty '' @ [34] @ py ''query'' @ [34] @
                      py '' field in the request.''))],
            status = 400\<rparr>"
  by (simp add: execute_def jsonify_def py_def)

text \<open>
  C5, amended: with a usable handle and a body that is a JSON object whose \<open>query\<close> is
  missing, a string of whitespace only (the empty string included) or not a string, the
  answer has status 400; its body is \<open>{error: 'Missing or empty "query" field in the
  request.'}\<close> when the object has an item and \<open>{error: 'Invalid or missing JSON
  payload.'}\<close> when it has none; the run has no event.
\<close>

theorem execute_missing_query:
  assumes "map_of d (py ''query'') = None
     \<or> (\<exists>s. map_of d (py ''query'') = Some (PStr s) \<and> (\<forall>c\<in>set s. isspace c))
     \<or> (\<exists>v. map_of d (py ''query'') = Some v \<and> \<not> isinstance_str v)"
  shows "execute generate_content (Some m) (Json (PDict d)) =
     (if d = [] then
        (Inr \<lparr>body = PDict [(py ''error'', PStr (py ''Invalid or missing JSON payload.''))],
              status = 400\<rparr>, [])
      else
        (Inr \<lparr>body = PDict [(py ''error'',
                  PStr (py ''Missing or empty '' @ [34] @ py ''query'' @ [34] @
                        py '' field in the request.''))],
              status = 400\<rparr>, []))"
proof -
  from assms consider
      (missing) "map_of d (py ''query'') = None"
    | (blank) s where "map_of d (py ''query'') = Some (PStr s)" and "\<forall>c\<in>set s. isspace c"
    | (other) v where "map_of d (py ''query'') = Some v" and "\<not> isinstance_str v"
    by (elim disjE exE conjE)
  then show ?thesis
  proof cases
    case missing
    then show ?thesis
      by (simp add: execute_def jsonify_def missing_query_response_def)
  next
    case blank
    from blank(2) have "strip s = []"
      by (simp add: strip_eq_Nil)
    with blank(1) show ?thesis
      by (simp add: execute_def jsonify_def missing_query_response_def)
  next
    case other
    then show ?thesis
      by (simp add: execute_def jsonify_def missing_query_response_def)
  qed
qed

theorem execute_missing_query_witness:
  "execute (canned_client (py ''unused'')) (Some ())
      (Json (PDict [(py ''question'', PStr (py ''hi''))])) =
     (Inr \<lparr>body = PDict [(py ''error'',
               PStr (py ''Missing or empty '' @ [34] @ py ''query'' @ [34] @
                     py '' field in the request.''))],
           status = 400\<rparr>, [])
   \<and> execute (canned_client (py ''unused'')) (Some ())
      (Json (PDict [(py ''query'', PStr [32, 9, 32])])) =
     (Inr \<lparr>body = PDict [(py ''error'',
               PStr (py ''Missing or empty '' @ [34] @ py ''query'' @ [34] @
                     py '' field in the request.''))],
           status = 400\<rparr>, [])
   \<and> execute (canned_client (py ''unused'')) (Some ())
      (Json (PDict [(py ''query'', PInt 42)])) =
     (Inr \<lparr>body = PDict [(py ''error'',
               PStr (py ''Missing or empty '' @ [34] @ py ''query'' @ [34] @
                     py '' field in the request.''))],
           status = 400\<rparr>, [])"
proof -
  have h1: "map_of [(py ''question'', PStr (py ''hi''))] (py ''query'') = None"
    by (simp add: py_def)
  have h2: "map_of [(py ''query'', PStr [32, 9, 32])] (py ''query'') = Some (PStr [32, 9, 32])
      \<and> (\<forall>c\<in>set [32, 9, 32]. isspace c)"
    by (simp add: isspace_def)
  have h3: "map_of [(py ''query'', PInt 42)] (py ''query'') = Some (PInt 42)
      \<and> \<not> isinstance_str (PInt 42)"
    by simp
  from h1 have a1: "map_of [(py ''question'', PStr (py ''hi''))] (py ''query'') = None
     \<or> (\<exists>s. map_of [(py ''question'', PStr (py ''hi''))] (py ''query'') = Some (PStr s)
           \<and> (\<forall>c\<in>set s. isspace c))
     \<or> (\<exists>v. map_of [(py ''question'', PStr (py ''hi''))] (py ''query'') = Some v
           \<and> \<not> isinstance_str v)"
    by (rule disjI1)
  from h2 have a2: "map_of [(py ''query'', PStr [32, 9, 32])] (py ''query'') = None
     \<or> (\<exists>s. map_of [(py ''query'', PStr [32, 9, 32])] (py ''query'') = Some (PStr s)
           \<and> (\<forall>c\<in>set s. isspace c))
     \<or> (\<exists>v. map_of [(py ''query'', PStr [32, 9, 32])] (py ''query'') = Some v
           \<and> \<not> isinstance_str v)"
    by blast
  from h3 have a3: "map_of [(py ''query'', PInt 42)] (py ''query'') = None
     \<or> (\<exists>s. map_of [(py ''query'', PInt 42)] (py ''query'') = Some (PStr s)
           \<and> (\<forall>c\<in>set s. isspace c))
     \<or> (\<exists>v. map_of [(py ''query'', PInt 42)] (py ''query'') = Some v
           \<and> \<not> isinstance_str v)"
    by blast
  from execute_missing_query [OF a1, of "canned_client (py ''unused'')" "()"]
    execute_missing_query [OF a2, of "canned_client (py ''unused'')" "()"]
    execute_missing_query [OF a3, of "canned_client (py ''unused'')" "()"]
  show ?thesis
    by simp
qed

text \<open>
  C6, as the claim states it, fails: the empty JSON object is not answered with the
  error of the query test.
\<close>

theorem execute_empty_object_counterexample:
  "execute (canned_client (py ''unused'')) (Some ()) (Json (PDict [])) \<noteq>
     (Inr \<lparr>body = PDict [(py ''error'',
               PStr (py ''Missing or empty '' @ [34] @ py ''query'' @ [34] @
                     py '' field in the request.''))],
           status = 400\<rparr>, [])"
  by (simp add: execute_def jsonify_def py_def)

text \<open>
  C6, amended: with a usable handle, a POST to /api/execute whose body is the JSON
  object \<open>{}\<close> is answered with status 400 and the body
  \<open>{error: 'Invalid or missing JSON payload.'}\<close>: an empty dict is false in the test
  \<open>if not data\<close>.
\<close>

theorem execute_empty_object:
  "execute generate_content (Some m) (Json (PDict [])) =
     (Inr \<lparr>body = PDict [(py ''error'', PStr (py ''Invalid or missing JSON payload.''))],
           status = 400\<rparr>, [])"
  by (simp add: execute_def jsonify_def)

theorem execute_empty_object_witness:
  "execute (failing_client (Exn APIError (py ''unused''))) (Some ()) (Json (PDict [])) =
     (Inr \<lparr>body = PDict [(py ''error'', PStr (py ''Invalid or missing JSON payload.''))],
           status = 400\<rparr>, [])"
  by (rule execute_empty_object)


subsection \<open>The query executor\<close>

text \<open>
  C7: without a handle, \<open>execute_budget_buddy\<close> raises the exception of a model that
  failed to initialize, whatever the client, and the client is not called; with a
  handle and a call of \<open>generate_content\<close> that raises, it raises the same exception,
  after exactly one call of the client.
\<close>

theorem execute_budget_buddy_failure:
  "execute_budget_buddy generate_content None q =
     (Inl (Exn Exception (py ''AI model failed to initialize due to missing or invalid API key.'')),
      [Call_execute_budget_buddy q])
   \<and> (generate_content m q system_prompt tools = Inl e \<longrightarrow>
        execute_budget_buddy generate_content (Some m) q =
          (Inl e, [Call_execute_budget_buddy q, Call_generate_content q system_prompt tools]))"
  by (simp add: execute_budget_buddy_def)

theorem execute_budget_buddy_failure_witness:
  "failing_client (Exn APIError (py ''503 overloaded'')) () (py ''Is a $9 latte worth it?'')
      system_prompt tools = Inl (Exn APIError (py ''503 overloaded''))
   \<and> execute_budget_buddy (failing_client (Exn APIError (py ''503 overloaded''))) None
      (py ''Is a $9 latte worth it?'') =
     (Inl (Exn Exception (py ''AI model failed to initialize due to missing or invalid API key.'')),
      [Call_execute_budget_buddy (py ''Is a $9 latte worth it?'')])
   \<and> execute_budget_buddy (failing_client (Exn APIError (py ''503 overloaded''))) (Some ())
      (py ''Is a $9 latte worth it?'') =
     (Inl (Exn APIError (py ''503 overloaded'')),
      [Call_execute_budget_buddy (py ''Is a $9 latte worth it?''),
       Call_generate_content (py ''Is a $9 latte worth it?'') system_prompt tools])"
proof -
  have h: "failing_client (Exn APIError (py ''503 overloaded'')) () (py ''Is a $9 latte worth it?'')
      system_prompt tools = Inl (Exn APIError (py ''503 overloaded''))"
    by (simp add: failing_client_def)
  with execute_budget_buddy_failure [of "failing_client (Exn APIError (py ''503 overloaded''))"
      "py ''Is a $9 latte worth it?''" "()" "Exn APIError (py ''503 overloaded'')"]
  show ?thesis
    by blast
qed

subsection \<open>Bodies that are not JSON objects\<close>

text \<open>
  C8 does not hold of the code: with a usable handle and a body that is a JSON document
  other than an object and true in \<open>if not data\<close> (a non-empty array, a number other
  than zero, a non-empty string, \<open>true\<close>), \<open>data.get\<close> raises an AttributeError before the
  \<open>try\<close> block, and the handler returns no response.
\<close>

theorem execute_non_object_raises:
  "execute generate_content (Some m) (Json (PList [PInt 1])) =
     (Inl (Exn AttributeError
        ([39] @ py ''list'' @ [39] @ py '' object has no attribute '' @ [39] @ py ''get'' @ [39])),
      [])
   \<and> execute generate_content (Some m) (Json (PInt 7)) =
     (Inl (Exn AttributeError
        ([39] @ py ''int'' @ [39] @ py '' object has no attribute '' @ [39] @ py ''get'' @ [39])),
      [])
   \<and> execute generate_content (Some m) (Json (PStr (py ''hello''))) =
     (Inl (Exn AttributeError
        ([39] @ py ''str'' @ [39] @ py '' object has no attribute '' @ [39] @ py ''get'' @ [39])),
      [])"
  by (simp add: execute_def py_def)

theorem execute_non_object_raises_witness:
  "execute (canned_client (py ''unused'')) (Some ()) (Json (PList [PInt 1])) =
     (Inl (Exn AttributeError
        ([39] @ py ''list'' @ [39] @ py '' object has no attribute '' @ [39] @ py ''get'' @ [39])),
      [])"
  using execute_non_object_raises [of "canned_client (py ''unused'')" "()"]
  by (rule conjunct1)

subsection \<open>The forwarded query\<close>

text \<open>
  C10: on a request whose \<open>query\<close> is a string with a non-whitespace character, the
  client is called with that string as it came (leading and trailing whitespace kept),
  the fixed system instruction and the tools: for every client, the response is computed
  from the value of \<open>generate_content\<close> at the unstripped string, and the run starts
  with the entry into the executor and the call of the client, both with that string.
  The stripped string is used in the test only.
\<close>

theorem execute_forwards_query_unchanged:
  assumes "map_of d (py ''query'') = Some (PStr q)"
    and "\<exists>c\<in>set q. \<not> isspace c"
  shows "fst (execute generate_content (Some m) (Json (PDict d))) =
     (case (case generate_content m q system_prompt tools of
              Inl e \<Rightarrow> Inl e
            | Inr r \<Rightarrow> response_text r) of
        Inr t \<Rightarrow>
          Inr \<lparr>body = PDict [(py ''success'', PBool True), (py ''result'', PStr t)],
               status = 200\<rparr>
      | Inl e \<Rightarrow>
          if isinstance_APIError e then
            Inr \<lparr>body = PDict [(py ''error'',
                     PStr (py ''AI Service Unavailable or request error: '' @ exn_str e))],
                 status = 503\<rparr>
          else
            Inr \<lparr>body = PDict [(py ''error'',
                     PStr (py ''An unexpected internal server error occurred.''))],
                 status = 500\<rparr>)
   \<and> take 2 (snd (execute generate_content (Some m) (Json (PDict d)))) =
     [Call_execute_budget_buddy q, Call_generate_content q system_prompt tools]"
  using execute_valid [OF assms, of generate_content m]
  by (simp add: execute_budget_buddy_def jsonify_def split: sum.split)

theorem execute_forwards_query_unchanged_witness:
  "strip (py ''  Is a $9 latte worth it? '') = py ''Is a $9 latte worth it?''
   \<and> (\<exists>c\<in>set (py ''  Is a $9 latte worth it? ''). \<not> isspace c)
   \<and> fst (execute echo_client (Some ())
        (Json (PDict [(py ''query'', PStr (py ''  Is a $9 latte worth it? ''))]))) =
     Inr \<lparr>body = PDict [(py ''success'', PBool True),
                         (py ''result'', PStr (py ''  Is a $9 latte worth it? ''))],
          status = 200\<rparr>
   \<and> fst (execute echo_client (Some ())
        (Json (PDict [(py ''query'', PStr (py ''  Is a $9 latte worth it? ''))]))) \<noteq>
     Inr \<lparr>body = PDict [(py ''success'', PBool True),
                         (py ''result'', PStr (py ''Is a $9 latte worth it?''))],
          status = 200\<rparr>
   \<and> take 2 (snd (execute echo_client (Some ())
        (Json (PDict [(py ''query'', PStr (py ''  Is a $9 latte worth it? ''))])))) =
     [Call_execute_budget_buddy (py ''  Is a $9 latte worth it? ''),
      Call_generate_content (py ''  Is a $9 latte worth it? '') system_prompt tools]"
proof -
  let ?q = "py ''  Is a $9 latte worth it? ''"
  have h0: "strip ?q = py ''Is a $9 latte worth it?''"
    by (simp add: py_def strip_def isspace_def)
  have h1: "map_of [(py ''query'', PStr ?q)] (py ''query'') = Some (PStr ?q)"
    by simp
  have h2: "\<exists>c\<in>set ?q. \<not> isspace c"
    by (simp add: py_def isspace_def)
  have h3: "?q \<noteq> py ''Is a $9 latte worth it?''"
    by (simp add: py_def)
  from h0 h2 h3 execute_forwards_query_unchanged [OF h1 h2,
      where generate_content = echo_client and m = "()"]
  show ?thesis
    by (simp add: echo_client_def)
qed

subsection \<open>The API key\<close>










end
